theory Spec2Isabelle
  imports Complex_Main
begin

section \<open>JavaScript values\<close>

text \<open>
  A JavaScript number is a finite double, \<open>NaN\<close> or one of the two infinities. A finite
  double is modelled by its numeric value, a rational: the source only compares volumes
  with the constants 100 and 0 and applies \<open>Math.floor\<close>, and both are exact on doubles.
  The two zeros of IEEE arithmetic are one numeric value here.
\<close>

datatype jsnum = Finite rat | NaN | PosInfinity | NegInfinity

text \<open>
  The arguments of the audio module are the primitive values of the language. Objects
  passed where a stream identifier or a volume is expected are outside the model.
\<close>

datatype jsval = JUndefined | JNull | JBool bool | JNum jsnum | JStr string

fun truthy :: "jsval \<Rightarrow> bool" where
  "truthy JUndefined = False"
| "truthy JNull = False"
| "truthy (JBool b) = b"
| "truthy (JNum (Finite r)) = (r \<noteq> 0)"
| "truthy (JNum NaN) = False"
| "truthy (JNum PosInfinity) = True"
| "truthy (JNum NegInfinity) = True"
| "truthy (JStr s) = (s \<noteq> [])"

text \<open>The relational operator \<open><\<close> on numbers: every comparison with \<open>NaN\<close> is false.\<close>

fun js_lt :: "jsnum \<Rightarrow> jsnum \<Rightarrow> bool" where
  "js_lt (Finite a) (Finite b) = (a < b)"
| "js_lt (Finite a) PosInfinity = True"
| "js_lt NegInfinity (Finite b) = True"
| "js_lt NegInfinity PosInfinity = True"
| "js_lt a b = False"

fun Math_floor :: "jsnum \<Rightarrow> jsnum" where
  "Math_floor (Finite r) = Finite (of_int \<lfloor>r\<rfloor>)"
| "Math_floor n = n"

fun isNaN :: "jsnum \<Rightarrow> bool" where
  "isNaN NaN = True"
| "isNaN n = False"

subsection \<open>Decimal numerals\<close>

definition isPrefixOf :: "string \<Rightarrow> string \<Rightarrow> bool" where
  "isPrefixOf p s \<longleftrightarrow> take (length p) s = p"

definition isWhiteSpace :: "char \<Rightarrow> bool" where
  "isWhiteSpace ch \<longleftrightarrow>
     ch \<in> set [CHR 0x09, CHR 0x0A, CHR 0x0B, CHR 0x0C, CHR 0x0D, CHR '' '']"

definition digitValue :: "char \<Rightarrow> nat option" where
  "digitValue ch =
     (let n = (of_char ch :: nat) in
      if 48 \<le> n \<and> n \<le> 57 then Some (n - 48)
      else if 97 \<le> n \<and> n \<le> 122 then Some (n - 87)
      else if 65 \<le> n \<and> n \<le> 90 then Some (n - 55)
      else None)"

definition isDigitOf :: "nat \<Rightarrow> char \<Rightarrow> bool" where
  "isDigitOf R ch = (case digitValue ch of None \<Rightarrow> False | Some d \<Rightarrow> d < R)"

definition digitsValue :: "nat \<Rightarrow> string \<Rightarrow> nat" where
  "digitsValue R ds =
     foldl (\<lambda>acc ch. acc * R + (case digitValue ch of None \<Rightarrow> 0 | Some d \<Rightarrow> d)) 0 ds"

text \<open>
  The built-in \<open>parseInt(string)\<close> with no radix argument: leading white space is
  skipped, a sign is read, the prefix \<open>0x\<close> selects radix 16, and the longest run of
  digits of the radix is the value; with no digit the result is \<open>NaN\<close>. Strings are byte
  strings, so the white space is the ASCII one. The result is the integer the digits
  denote: the rounding to a double of a numeral beyond \<open>2^53\<close> is not modelled.
\<close>

definition parseInt :: "string \<Rightarrow> jsnum" where
  "parseInt inputString =
     (let S = dropWhile isWhiteSpace inputString;
          sign = (if isPrefixOf ''-'' S then - 1 else (1::int));
          S = (if isPrefixOf ''-'' S \<or> isPrefixOf ''+'' S then drop 1 S else S);
          stripPrefix = (isPrefixOf ''0x'' S \<or> isPrefixOf ''0X'' S);
          R = (if stripPrefix then 16 else 10);
          S = (if stripPrefix then drop 2 S else S);
          Z = takeWhile (isDigitOf R) S
      in if Z = [] then NaN else Finite (of_int (sign * int (digitsValue R Z))))"

function showNat :: "nat \<Rightarrow> string" where
  "showNat n =
     (if n < 10 then [''0123456789'' ! n]
      else showNat (n div 10) @ [''0123456789'' ! (n mod 10)])"
  by pat_completeness auto
termination
  by (relation "measure id") auto

declare showNat.simps [simp del]

definition showInt :: "int \<Rightarrow> string" where
  "showInt i = (if i < 0 then CHR ''-'' # showNat (nat (- i)) else showNat (nat i))"

text \<open>
  \<open>String(v)\<close> for the numbers that reach the property store. \<open>_storeVolume\<close> passes
  its argument through \<open>Math.floor\<close> first, so a finite number is an integer there and
  prints as its decimal numeral; the fraction digits of other numbers are not modelled.
\<close>

fun numToString :: "jsnum \<Rightarrow> string" where
  "numToString (Finite r) = showInt \<lfloor>r\<rfloor>"
| "numToString NaN = ''NaN''"
| "numToString PosInfinity = ''Infinity''"
| "numToString NegInfinity = ''-Infinity''"

section \<open>The audio module\<close>

subsection \<open>What the module takes from its runtime\<close>

text \<open>
  \<open>audio.node\<close> is not part of the sources. Its seven stream constants are parameters,
  and so is the answer of \<open>native.setCurveForVolume(index, value)\<close>. \<open>AudioBase\<close> is a
  plain object, so it also answers to the member names it inherits from
  \<open>Object.prototype\<close>; which names these are depends on the engine.
\<close>

record native =
  STREAM_AUDIO :: int
  STREAM_TTS :: int
  STREAM_RING :: int
  STREAM_VOICE_CALL :: int
  STREAM_PLAYBACK :: int
  STREAM_ALARM :: int
  STREAM_SYSTEM :: int
  setCurveForVolume :: "nat \<Rightarrow> jsval \<Rightarrow> bool"
  inherited :: "string list"

record stream =
  stream_id :: int
  stream_name :: string
  readonly :: bool

text \<open>The getter \<open>key\<close> of a stream object.\<close>

definition key :: "stream \<Rightarrow> string" where
  "key s = ''audio.volume.'' @ stream_name s"

text \<open>Every call that leaves the module, in the order it is made.\<close>

datatype call =
  PropertySet string string
| SetStreamVolume int jsnum
| SetCurveForVolume nat jsval

text \<open>
  The state: the persistent property store, the calls made so far, the stream entries
  of \<open>AudioBase\<close> under their identifiers, and \<open>AudioBase.DEFAULT_VOLUME\<close>.
\<close>

record state =
  props :: "string \<rightharpoonup> string"
  trace :: "call list"
  AudioBase :: "int \<rightharpoonup> stream"
  DEFAULT_VOLUME :: jsnum

text \<open>
  Modelled from the spec: the module \<open>@yoda/property\<close> is not part of the sources. It is
  a key/value store of strings: \<open>get\<close> returns the string stored under the key, the
  empty string when there is none, and \<open>set\<close> stores the value as a string.
\<close>

definition property_get :: "(string \<rightharpoonup> string) \<Rightarrow> string \<Rightarrow> string" where
  "property_get p k = (case p k of None \<Rightarrow> [] | Some v \<Rightarrow> v)"

definition property_set :: "string \<Rightarrow> jsnum \<Rightarrow> state \<Rightarrow> state" where
  "property_set k v st =
     st\<lparr>props := (props st)(k \<mapsto> numToString v),
        trace := trace st @ [PropertySet k (numToString v)]\<rparr>"

text \<open>
  Modelled from the spec: \<open>native.setStreamVolume(id, vol)\<close> of \<open>audio.node\<close>, a
  synchronous call whose result the module ignores.
\<close>

definition native_setStreamVolume :: "int \<Rightarrow> jsnum \<Rightarrow> state \<Rightarrow> state" where
  "native_setStreamVolume i v st = st\<lparr>trace := trace st @ [SetStreamVolume i v]\<rparr>"

subsection \<open>Internal functions\<close>

text \<open>
  \<open>_getNumber\<close>, \<open>_storeVolume\<close> and \<open>_getVolume\<close> of the source (a name cannot begin
  with an underscore here).
\<close>

definition U_getNumber :: "(string \<rightharpoonup> string) \<Rightarrow> string \<Rightarrow> jsnum \<Rightarrow> jsnum" where
  "U_getNumber p k defaults =
     (let num = parseInt (property_get p k) in if isNaN num then defaults else num)"

definition U_storeVolume :: "stream \<Rightarrow> jsnum \<Rightarrow> state \<Rightarrow> state" where
  "U_storeVolume s vol st =
     (let vol = Math_floor vol
      in native_setStreamVolume (stream_id s) vol (property_set (key s) vol st))"

definition U_getVolume :: "stream \<Rightarrow> state \<Rightarrow> jsval" where
  "U_getVolume s st =
     (let vol = parseInt (property_get (props st) (key s))
      in if isNaN vol then JBool False else JNum vol)"

definition defineStream :: "int \<Rightarrow> string \<Rightarrow> bool \<Rightarrow> state \<Rightarrow> state" where
  "defineStream i n ro st =
     (let s = \<lparr>stream_id = i, stream_name = n, readonly = ro\<rparr>;
          st = st\<lparr>AudioBase := (AudioBase st)(i \<mapsto> s)\<rparr>
      in if U_getVolume s st = JBool False then U_storeVolume s (DEFAULT_VOLUME st) st
         else st)"

definition init :: "native \<Rightarrow> state \<Rightarrow> state" where
  "init c st =
     defineStream (STREAM_SYSTEM c) ''system'' True
      (defineStream (STREAM_ALARM c) ''alarm'' False
       (defineStream (STREAM_PLAYBACK c) ''playback'' False
        (defineStream (STREAM_VOICE_CALL c) ''voiceCall'' False
         (defineStream (STREAM_RING c) ''ring'' False
          (defineStream (STREAM_TTS c) ''tts'' False
           (defineStream (STREAM_AUDIO c) ''audio'' False st))))))"

text \<open>
  Loading the module over a property store \<open>p\<close>: \<open>AudioBase\<close> is created with
  \<open>DEFAULT_VOLUME\<close> read from the store, then \<open>init\<close> runs.
\<close>

definition moduleLoad :: "native \<Rightarrow> (string \<rightharpoonup> string) \<Rightarrow> state" where
  "moduleLoad c p =
     init c \<lparr>props = p, trace = [], AudioBase = Map.empty,
             DEFAULT_VOLUME = U_getNumber p ''audio.volume.default'' (Finite 60)\<rparr>"

subsection \<open>Looking a value up in AudioBase\<close>

text \<open>
  \<open>AudioBase[x]\<close> converts \<open>x\<close> to a property key. The key of an integral number is
  its numeral, and a string that is the numeral of an integer is the same key. A number
  with a fraction has a key that no entry carries. (Integers of 22 digits and more print
  in exponent form; identifiers of that size are outside the model.)
\<close>

datatype pkey = KInt int | KName string | KFraction

definition canonicalInt :: "string \<Rightarrow> int option" where
  "canonicalInt s =
     (let i = (if isPrefixOf ''-'' s then - int (digitsValue 10 (drop 1 s))
               else int (digitsValue 10 s))
      in if showInt i = s then Some i else None)"

fun toPropertyKey :: "jsval \<Rightarrow> pkey" where
  "toPropertyKey JUndefined = KName ''undefined''"
| "toPropertyKey JNull = KName ''null''"
| "toPropertyKey (JBool b) = KName (if b then ''true'' else ''false'')"
| "toPropertyKey (JNum (Finite r)) = (if of_int \<lfloor>r\<rfloor> = r then KInt \<lfloor>r\<rfloor> else KFraction)"
| "toPropertyKey (JNum NaN) = KName ''NaN''"
| "toPropertyKey (JNum PosInfinity) = KName ''Infinity''"
| "toPropertyKey (JNum NegInfinity) = KName ''-Infinity''"
| "toPropertyKey (JStr s) = (case canonicalInt s of Some i \<Rightarrow> KInt i | None \<Rightarrow> KName s)"

text \<open>
  What \<open>AudioBase[x]\<close> evaluates to: \<open>undefined\<close>, a stream object, the number under
  \<open>DEFAULT_VOLUME\<close>, or a member inherited from \<open>Object.prototype\<close>.
\<close>

datatype entry = Missing | StreamEntry stream | NumberEntry jsnum | InheritedEntry

definition AudioBase_at :: "native \<Rightarrow> state \<Rightarrow> jsval \<Rightarrow> entry" where
  "AudioBase_at c st x =
     (case toPropertyKey x of
        KInt i \<Rightarrow> (case AudioBase st i of None \<Rightarrow> Missing | Some s \<Rightarrow> StreamEntry s)
      | KName n \<Rightarrow>
          if n = ''DEFAULT_VOLUME'' then NumberEntry (DEFAULT_VOLUME st)
          else if n \<in> set (inherited c) then InheritedEntry
          else Missing
      | KFraction \<Rightarrow> Missing)"

fun truthyEntry :: "entry \<Rightarrow> bool" where
  "truthyEntry Missing = False"
| "truthyEntry (StreamEntry s) = True"
| "truthyEntry (NumberEntry n) = truthy (JNum n)"
| "truthyEntry InheritedEntry = True"

subsection \<open>The exported functions\<close>

text \<open>
  The errors the module throws, with their messages. \<open>CannotReadProperty p\<close> is the
  type error the engine raises when the property \<open>p\<close> of \<open>undefined\<close> is read.
\<close>

datatype error =
  TypeError string
| Error string
| RangeError string
| CannotReadProperty string

text \<open>
  A call returns a value or throws, and leaves a state either way. For an entry of
  \<open>AudioBase\<close> that is not a stream the source goes on to call \<open>@yoda/property\<close> with
  the key \<open>undefined\<close>; what happens then is decided there, and the model says
  \<open>Unmodelled\<close>.
\<close>

datatype outcome = Returned jsval state | Threw error state | Unmodelled

text \<open>The \<open>i\<close>-th argument of a call, \<open>undefined\<close> when fewer were passed.\<close>

definition arg :: "jsval list \<Rightarrow> nat \<Rightarrow> jsval" where
  "arg args i = (if i < length args then args ! i else JUndefined)"

text \<open>A stream constant of \<open>native\<close> as a value.\<close>

definition num :: "int \<Rightarrow> jsval" where
  "num i = JNum (Finite (of_int i))"

function setVolume :: "native \<Rightarrow> jsval list \<Rightarrow> state \<Rightarrow> outcome" where
  "setVolume c args st =
     (let type = (if length args = 1 then JNull else arg args 0);
          vol = (if length args = 1 then arg args 0 else arg args 1)
      in if truthy type \<and> \<not> truthyEntry (AudioBase_at c st type)
         then Threw (TypeError ''invalid stream type'') st
         else (case vol of
            JNum v \<Rightarrow>
              (let vol = (if js_lt (Finite 100) v then Finite 100
                          else if js_lt v (Finite 0) then Finite 0 else v)
               in if type = JNull then
                    (case setVolume c [num (STREAM_AUDIO c), JNum vol] st of
                       Returned r1 s1 \<Rightarrow>
                        (case setVolume c [num (STREAM_PLAYBACK c), JNum vol] s1 of
                           Returned r2 s2 \<Rightarrow>
                            (case setVolume c [num (STREAM_TTS c), JNum vol] s2 of
                               Returned r3 s3 \<Rightarrow>
                                (case setVolume c [num (STREAM_RING c), JNum vol] s3 of
                                   Returned r4 s4 \<Rightarrow> Returned JUndefined s4
                                 | other \<Rightarrow> other)
                             | other \<Rightarrow> other)
                         | other \<Rightarrow> other)
                     | other \<Rightarrow> other)
                  else (case AudioBase_at c st type of
                     Missing \<Rightarrow> Threw (CannotReadProperty ''readonly'') st
                   | StreamEntry s \<Rightarrow>
                       if readonly s
                       then Threw (Error (''stream type \"'' @ stream_name s @ ''\" is readonly'')) st
                       else Returned JUndefined (U_storeVolume s vol st)
                   | NumberEntry n \<Rightarrow> Unmodelled
                   | InheritedEntry \<Rightarrow> Unmodelled))
          | other \<Rightarrow> Threw (TypeError ''vol must be a number'') st))"
  by pat_completeness auto
termination
  by (relation "measure (\<lambda>(c, args, st). if length args = 1 \<or> arg args 0 = JNull then 1 else 0)")
     (auto simp: arg_def num_def split: if_splits)

declare setVolume.simps [simp del]

text \<open>The call \<open>_getVolume(AudioBase[x])\<close> of \<open>getVolume\<close>, by what the entry is.\<close>

fun U_getVolume_of :: "entry \<Rightarrow> state \<Rightarrow> outcome" where
  "U_getVolume_of Missing st = Threw (CannotReadProperty ''key'') st"
| "U_getVolume_of (StreamEntry s) st = Returned (U_getVolume s st) st"
| "U_getVolume_of (NumberEntry n) st = Unmodelled"
| "U_getVolume_of InheritedEntry st = Unmodelled"

definition getVolume :: "native \<Rightarrow> jsval list \<Rightarrow> state \<Rightarrow> outcome" where
  "getVolume c args st =
     (let stream = arg args 0
      in if stream \<noteq> JUndefined then
           (if \<not> truthyEntry (AudioBase_at c st stream)
            then Threw (TypeError ''invalid stream type'') st
            else U_getVolume_of (AudioBase_at c st stream) st)
         else U_getVolume_of (AudioBase_at c st (num (STREAM_TTS c))) st)"

text \<open>
  What a shaper function returns: an array, or something \<open>Array.isArray\<close> rejects. The
  shaper is a function of its argument alone.
\<close>

datatype shape = ArrayOf "jsval list" | NotArray

text \<open>The element \<open>shape[i]\<close> of an array: \<open>undefined\<close> beyond its length.\<close>

definition elementAt :: "jsval list \<Rightarrow> nat \<Rightarrow> jsval" where
  "elementAt shape i = (if i < length shape then shape ! i else JUndefined)"

text \<open>The loop of \<open>setVolumeShaper\<close>, from index \<open>i\<close> on.\<close>

function setCurves :: "native \<Rightarrow> jsval list \<Rightarrow> nat \<Rightarrow> nat \<Rightarrow> state \<Rightarrow> outcome" where
  "setCurves c shape i max' st =
     (if i \<le> max' then
        (let v = elementAt shape i;
             st' = st\<lparr>trace := trace st @ [SetCurveForVolume i v]\<rparr>
         in if \<not> setCurveForVolume c i v
            then Threw (RangeError ''out of range when set volume shape.'') st'
            else setCurves c shape (i + 1) max' st')
      else Returned (JBool True) st)"
  by pat_completeness auto
termination
  by (relation "measure (\<lambda>(c, shape, i, max', st). Suc max' - i)") auto

declare setCurves.simps [simp del]

definition setVolumeShaper :: "native \<Rightarrow> (jsnum \<Rightarrow> shape) \<Rightarrow> state \<Rightarrow> outcome" where
  "setVolumeShaper c shaper st =
     (let max' = 100
      in case shaper (Finite (of_nat max')) of
           NotArray \<Rightarrow>
             Threw (Error ''shaper function should return an array with 100 elements.'') st
         | ArrayOf shape \<Rightarrow> setCurves c shape 0 max' st)"

section \<open>The utilities of the path resolver\<close>

text \<open>
  Modelled from the spec: the module \<open>@yoda/util\<close> is not part of the sources, only its
  test suite is. A value is one of the node kinds the specification names: absent
  (\<open>undefined\<close>), null, a scalar, a sequence or a mapping.
\<close>

datatype literal = LitNumber jsnum | LitString string | LitBoolean bool

datatype node =
  Absent
| Null
| Scalar literal
| Sequence "node list"
| Mapping "(string \<times> node) list"

text \<open>
  Modelled from the spec: a path is a string, a single key or keys joined by dots, or a
  number. Its segments are the keys between the dots.
\<close>

datatype pathexpr = PathString string | PathNumber nat

fun splitOn :: "char \<Rightarrow> string \<Rightarrow> string list" where
  "splitOn sep [] = [[]]"
| "splitOn sep (ch # rest) =
     (if ch = sep then [] # splitOn sep rest
      else (case splitOn sep rest of
              [] \<Rightarrow> [[ch]]
            | w # ws \<Rightarrow> (ch # w) # ws))"

fun segments :: "pathexpr \<Rightarrow> string list" where
  "segments (PathString s) = splitOn CHR ''.'' s"
| "segments (PathNumber n) = [showNat n]"

text \<open>
  Modelled from the spec: a segment of digits addresses an element of a sequence as the
  integer it denotes.
\<close>

definition segmentIndex :: "string \<Rightarrow> nat option" where
  "segmentIndex seg =
     (if seg \<noteq> [] \<and> list_all (isDigitOf 10) seg then Some (digitsValue 10 seg) else None)"

text \<open>
  Modelled from the spec: reading a key or index of a node. On \<open>undefined\<close> and on
  \<open>null\<close> the language raises a type error; a scalar has no keys, and a key that is not
  there gives "no value".
\<close>

fun getProperty :: "node \<Rightarrow> string \<Rightarrow> error + node" where
  "getProperty Absent seg = Inl (CannotReadProperty seg)"
| "getProperty Null seg = Inl (CannotReadProperty seg)"
| "getProperty (Scalar l) seg = Inr Absent"
| "getProperty (Sequence xs) seg =
     (case segmentIndex seg of
        None \<Rightarrow> Inr Absent
      | Some i \<Rightarrow> if i < length xs then Inr (xs ! i) else Inr Absent)"
| "getProperty (Mapping kvs) seg =
     (case map_of kvs seg of None \<Rightarrow> Inr Absent | Some v \<Rightarrow> Inr v)"

text \<open>
  Modelled from the spec: the walk of \<open>get\<close>, segment by segment. It stops at a null node
  with null and at "no value" with "no value", whatever segments remain.
\<close>

fun resolve :: "node \<Rightarrow> string list \<Rightarrow> error + node" where
  "resolve v [] = Inr v"
| "resolve Null (seg # segs) = Inr Null"
| "resolve Absent (seg # segs) = Inr Absent"
| "resolve v (seg # segs) =
     (case getProperty v seg of Inl e \<Rightarrow> Inl e | Inr v' \<Rightarrow> resolve v' segs)"

text \<open>
  Modelled from the spec: \<open>get(container, path, defaultValue)\<close>. A container that is null
  or "no value" gives the default; otherwise the walk decides, and the default replaces
  "no value" only.
\<close>

definition get :: "node \<Rightarrow> pathexpr \<Rightarrow> node \<Rightarrow> error + node" where
  "get container path defaultValue =
     (if container = Null \<or> container = Absent then Inr defaultValue
      else (case resolve container (segments path) of
              Inl e \<Rightarrow> Inl e
            | Inr found \<Rightarrow> Inr (if found = Absent then defaultValue else found)))"

text \<open>
  Modelled from the spec: \<open>pick(container, keys...)\<close> returns a null or "no value"
  container as it is, and otherwise a mapping of the listed keys the container has.
\<close>

fun pickKeys :: "node \<Rightarrow> string list \<Rightarrow> error + (string \<times> node) list" where
  "pickKeys container [] = Inr []"
| "pickKeys container (k # ks) =
     (case getProperty container k of
        Inl e \<Rightarrow> Inl e
      | Inr v \<Rightarrow>
          (case pickKeys container ks of
             Inl e \<Rightarrow> Inl e
           | Inr kvs \<Rightarrow> Inr (if v = Absent then kvs else (k, v) # kvs)))"

definition pick :: "node \<Rightarrow> string list \<Rightarrow> error + node" where
  "pick container keys =
     (if container = Null \<or> container = Absent then Inr container
      else (case pickKeys container keys of
              Inl e \<Rightarrow> Inl e
            | Inr kvs \<Rightarrow> Inr (Mapping kvs)))"

text \<open>
  Modelled from the spec: \<open>startsWith(value, prefix)\<close> is false for a value that is not a
  string, and otherwise tells whether the string begins with the prefix. The method of
  strings it relies on does not exist on other values.
\<close>

fun stringStartsWith :: "node \<Rightarrow> string \<Rightarrow> error + bool" where
  "stringStartsWith (Scalar (LitString s)) prefix = Inr (isPrefixOf prefix s)"
| "stringStartsWith v prefix = Inl (TypeError ''startsWith is not a function'')"

fun isString :: "node \<Rightarrow> bool" where
  "isString (Scalar (LitString s)) = True"
| "isString v = False"

definition startsWith :: "node \<Rightarrow> string \<Rightarrow> error + bool" where
  "startsWith v prefix = (if isString v then stringStartsWith v prefix else Inr False)"

section \<open>Definitions for the properties\<close>

text \<open>
  The volume as the specification words it: the minimum of 100 and the maximum of 0 and
  the floor of the argument, with \<open>Math.min\<close> and \<open>Math.max\<close> of the language, which
  return \<open>NaN\<close> when an argument is \<open>NaN\<close>.
\<close>

fun Math_max :: "jsnum \<Rightarrow> jsnum \<Rightarrow> jsnum" where
  "Math_max a b = (if isNaN a \<or> isNaN b then NaN else if js_lt a b then b else a)"

fun Math_min :: "jsnum \<Rightarrow> jsnum \<Rightarrow> jsnum" where
  "Math_min a b = (if isNaN a \<or> isNaN b then NaN else if js_lt b a then b else a)"

definition spec_volume :: "jsnum \<Rightarrow> jsnum" where
  "spec_volume v = Math_min (Finite 100) (Math_max (Finite 0) (Math_floor v))"

text \<open>The value of \<open>vol\<close> in \<open>setVolume\<close> after its two comparisons.\<close>

definition clamp :: "jsnum \<Rightarrow> jsnum" where
  "clamp v = (if js_lt (Finite 100) v then Finite 100
              else if js_lt v (Finite 0) then Finite 0 else v)"

text \<open>The seven stream objects that \<open>init\<close> defines, in its order.\<close>

definition catalog :: "native \<Rightarrow> stream list" where
  "catalog c =
     [\<lparr>stream_id = STREAM_AUDIO c, stream_name = ''audio'', readonly = False\<rparr>,
      \<lparr>stream_id = STREAM_TTS c, stream_name = ''tts'', readonly = False\<rparr>,
      \<lparr>stream_id = STREAM_RING c, stream_name = ''ring'', readonly = False\<rparr>,
      \<lparr>stream_id = STREAM_VOICE_CALL c, stream_name = ''voiceCall'', readonly = False\<rparr>,
      \<lparr>stream_id = STREAM_PLAYBACK c, stream_name = ''playback'', readonly = False\<rparr>,
      \<lparr>stream_id = STREAM_ALARM c, stream_name = ''alarm'', readonly = False\<rparr>,
      \<lparr>stream_id = STREAM_SYSTEM c, stream_name = ''system'', readonly = True\<rparr>]"

text \<open>
  A runtime for the concrete instances: identifiers 0 to 6, a backend that accepts the
  curve values from 0 to 100, and the members of \<open>Object.prototype\<close> in ECMAScript 5.
\<close>

definition sampleNative :: native where
  "sampleNative =
     \<lparr>STREAM_AUDIO = 0, STREAM_TTS = 1, STREAM_RING = 2, STREAM_VOICE_CALL = 3,
      STREAM_PLAYBACK = 4, STREAM_ALARM = 5, STREAM_SYSTEM = 6,
      setCurveForVolume = (\<lambda>i v. case v of JNum (Finite r) \<Rightarrow> 0 \<le> r \<and> r \<le> 100 | other \<Rightarrow> False),
      inherited = [''constructor'', ''toString'', ''toLocaleString'', ''valueOf'',
                   ''hasOwnProperty'', ''isPrototypeOf'', ''propertyIsEnumerable'']\<rparr>"

text \<open>The stream object that \<open>init\<close> defines last.\<close>

definition systemStream :: "native \<Rightarrow> stream" where
  "systemStream c = \<lparr>stream_id = STREAM_SYSTEM c, stream_name = ''system'', readonly = True\<rparr>"

text \<open>The stream object that \<open>init\<close> defines for text to speech.\<close>

definition ttsStream :: "native \<Rightarrow> stream" where
  "ttsStream c = \<lparr>stream_id = STREAM_TTS c, stream_name = ''tts'', readonly = False\<rparr>"

text \<open>A state after loading in which the store holds strings written from outside.\<close>

definition garbledState :: state where
  "garbledState =
     (moduleLoad sampleNative Map.empty)
       \<lparr>props := [''audio.volume.tts'' \<mapsto> ''abc'', ''audio.volume.ring'' \<mapsto> '' 42'']\<rparr>"

text \<open>The stream objects of the four streams that a broadcast addresses.\<close>

definition audioStream :: "native \<Rightarrow> stream" where
  "audioStream c = \<lparr>stream_id = STREAM_AUDIO c, stream_name = ''audio'', readonly = False\<rparr>"

definition playbackStream :: "native \<Rightarrow> stream" where
  "playbackStream c =
     \<lparr>stream_id = STREAM_PLAYBACK c, stream_name = ''playback'', readonly = False\<rparr>"

definition ringStream :: "native \<Rightarrow> stream" where
  "ringStream c = \<lparr>stream_id = STREAM_RING c, stream_name = ''ring'', readonly = False\<rparr>"

text \<open>
  The identifiers \<open>setVolume\<close> passes to itself when the stream argument is omitted, in
  its order, and the run of these calls: each starts in the state the one before left,
  and the first that does not return ends the run.
\<close>

definition broadcastTargets :: "native \<Rightarrow> int list" where
  "broadcastTargets c = [STREAM_AUDIO c, STREAM_PLAYBACK c, STREAM_TTS c, STREAM_RING c]"

fun setEach :: "native \<Rightarrow> int list \<Rightarrow> jsnum \<Rightarrow> state \<Rightarrow> outcome" where
  "setEach c [] w st = Returned JUndefined st"
| "setEach c (i # is) w st =
     (case setVolume c [num i, JNum w] st of
        Returned r s \<Rightarrow> setEach c is w s
      | other \<Rightarrow> other)"

text \<open>A loaded module in which the stream of text to speech was redefined readonly.\<close>

definition readonlyTtsState :: state where
  "readonlyTtsState = defineStream 1 ''tts'' True (moduleLoad sampleNative Map.empty)"

text \<open>The calls of \<open>native.setCurveForVolume\<close> for the indices from \<open>i\<close> up to, not including, \<open>n\<close>.\<close>

definition curveCalls :: "jsval list \<Rightarrow> nat \<Rightarrow> nat \<Rightarrow> call list" where
  "curveCalls shape i n = map (\<lambda>j. SetCurveForVolume j (elementAt shape j)) [i..<n]"

text \<open>The decimal digits.\<close>

definition isDec :: "char \<Rightarrow> bool" where
  "isDec ch \<longleftrightarrow> ch \<in> set ''0123456789''"

text \<open>
  The store holds a string that parses to a number under the key of the stream named
  \<open>n\<close>: \<open>_getVolume\<close> does not return \<open>false\<close> for it.
\<close>

definition hasVolume :: "state \<Rightarrow> string \<Rightarrow> bool" where
  "hasVolume st n \<longleftrightarrow> \<not> isNaN (parseInt (property_get (props st) (''audio.volume.'' @ n)))"



section \<open>Properties\<close>

subsection \<open>Auxiliary facts\<close>

lemma toPropertyKey_num [simp]: "toPropertyKey (num i) = KInt i"
  by (simp add: num_def)

lemma AudioBase_at_num:
  "AudioBase_at c st (num i) = (case AudioBase st i of None \<Rightarrow> Missing | Some s \<Rightarrow> StreamEntry s)"
  by (simp add: AudioBase_at_def)

lemma num_not_null [simp]: "num i \<noteq> JNull" "num i \<noteq> JUndefined"
  by (simp_all add: num_def)

lemma setVolume_entry:
  assumes "t \<noteq> JNull" and "AudioBase_at c st t = StreamEntry s"
  shows "setVolume c [t, JNum v] st =
     (if readonly s
      then Threw (Error (''stream type \"'' @ stream_name s @ ''\" is readonly'')) st
      else Returned JUndefined (U_storeVolume s (clamp v) st))"
  using assms by (subst setVolume.simps) (simp add: arg_def clamp_def Let_def)

lemma floor_clamp: "Math_floor (clamp v) = spec_volume v"
proof (cases v)
  case (Finite r)
  have "\<lfloor>r\<rfloor> < 0 \<longleftrightarrow> r < 0" by (simp add: floor_less_iff)
  moreover have "100 < r \<Longrightarrow> 100 \<le> \<lfloor>r\<rfloor>" by (simp add: le_floor_iff)
  moreover have "\<not> 100 < r \<Longrightarrow> \<lfloor>r\<rfloor> \<le> 100" by (simp add: floor_le_iff) 
  moreover have "\<not> r < 0 \<Longrightarrow> \<not> 1 \<le> r \<Longrightarrow> \<lfloor>r\<rfloor> = 0" by (simp add: floor_eq_iff)
  ultimately show ?thesis using Finite
    by (auto simp: clamp_def spec_volume_def)
qed (simp_all add: clamp_def spec_volume_def)

lemma spec_volume_Finite: "spec_volume (Finite r) = Finite (of_int (min 100 (max 0 \<lfloor>r\<rfloor>)))"
proof -
  have "\<not> r < 0 \<Longrightarrow> \<not> 1 \<le> r \<Longrightarrow> \<lfloor>r\<rfloor> = 0" by (simp add: floor_eq_iff)
  then show ?thesis
    by (auto simp: spec_volume_def floor_less_iff min_def max_def)
qed

lemma U_storeVolume_fields [simp]:
  "props (U_storeVolume s v st) = (props st)(key s \<mapsto> numToString (Math_floor v))"
  "trace (U_storeVolume s v st) =
     trace st @ [PropertySet (key s) (numToString (Math_floor v)),
                 SetStreamVolume (stream_id s) (Math_floor v)]"
  "AudioBase (U_storeVolume s v st) = AudioBase st"
  "DEFAULT_VOLUME (U_storeVolume s v st) = DEFAULT_VOLUME st"
  by (simp_all add: U_storeVolume_def property_set_def native_setStreamVolume_def Let_def)

lemma defineStream_fields [simp]:
  "AudioBase (defineStream i n ro st) =
     (AudioBase st)(i \<mapsto> \<lparr>stream_id = i, stream_name = n, readonly = ro\<rparr>)"
  "DEFAULT_VOLUME (defineStream i n ro st) = DEFAULT_VOLUME st"
  by (simp_all add: defineStream_def Let_def)

lemma init_AudioBase:
  "AudioBase (init c st) =
     (AudioBase st)
      (STREAM_AUDIO c \<mapsto> \<lparr>stream_id = STREAM_AUDIO c, stream_name = ''audio'', readonly = False\<rparr>,
       STREAM_TTS c \<mapsto> \<lparr>stream_id = STREAM_TTS c, stream_name = ''tts'', readonly = False\<rparr>,
       STREAM_RING c \<mapsto> \<lparr>stream_id = STREAM_RING c, stream_name = ''ring'', readonly = False\<rparr>,
       STREAM_VOICE_CALL c \<mapsto> \<lparr>stream_id = STREAM_VOICE_CALL c, stream_name = ''voiceCall'', readonly = False\<rparr>,
       STREAM_PLAYBACK c \<mapsto> \<lparr>stream_id = STREAM_PLAYBACK c, stream_name = ''playback'', readonly = False\<rparr>,
       STREAM_ALARM c \<mapsto> \<lparr>stream_id = STREAM_ALARM c, stream_name = ''alarm'', readonly = False\<rparr>,
       STREAM_SYSTEM c \<mapsto> \<lparr>stream_id = STREAM_SYSTEM c, stream_name = ''system'', readonly = True\<rparr>)"
  unfolding init_def by (simp only: defineStream_fields)

lemma init_registers:
  assumes "distinct (map stream_id (catalog c))" and "s \<in> set (catalog c)"
  shows "AudioBase (init c st) (stream_id s) = Some s"
proof -
  have d: "distinct [STREAM_AUDIO c, STREAM_TTS c, STREAM_RING c, STREAM_VOICE_CALL c,
      STREAM_PLAYBACK c, STREAM_ALARM c, STREAM_SYSTEM c]"
    using assms(1) by (simp add: catalog_def)
  from assms(2) have
      "s = \<lparr>stream_id = STREAM_AUDIO c, stream_name = ''audio'', readonly = False\<rparr>
    \<or> s = \<lparr>stream_id = STREAM_TTS c, stream_name = ''tts'', readonly = False\<rparr>
    \<or> s = \<lparr>stream_id = STREAM_RING c, stream_name = ''ring'', readonly = False\<rparr>
    \<or> s = \<lparr>stream_id = STREAM_VOICE_CALL c, stream_name = ''voiceCall'', readonly = False\<rparr>
    \<or> s = \<lparr>stream_id = STREAM_PLAYBACK c, stream_name = ''playback'', readonly = False\<rparr>
    \<or> s = \<lparr>stream_id = STREAM_ALARM c, stream_name = ''alarm'', readonly = False\<rparr>
    \<or> s = \<lparr>stream_id = STREAM_SYSTEM c, stream_name = ''system'', readonly = True\<rparr>"
    unfolding catalog_def by (simp only: set_simps insert_iff empty_iff disj_assoc simp_thms)
  then show ?thesis
    using d by (elim disjE) (simp_all add: init_AudioBase)
qed

subsection \<open>Setting a volume\<close>

text \<open>
  Claim C1. For a stream \<open>s\<close> that \<open>AudioBase\<close> holds under its identifier and that is
  not readonly, and for every number \<open>v\<close>, \<open>setVolume(s.id, v)\<close> returns after exactly
  two calls: \<open>property.set\<close> of the key of \<open>s\<close> and \<open>native.setStreamVolume\<close> of
  the identifier of \<open>s\<close>, both with \<open>min(100, max(0, floor(v)))\<close>. For a finite \<open>v\<close>
  this is the integer \<open>min 100 (max 0 \<lfloor>v\<rfloor>)\<close>: above 100 it is 100, below 0 it is 0.
\<close>

theorem setVolume_stores_clamped_floor:
  assumes "AudioBase st (stream_id s) = Some s" and "\<not> readonly s"
  shows "setVolume c [num (stream_id s), JNum v] st =
           Returned JUndefined
            (st\<lparr>props := (props st)(key s \<mapsto> numToString (spec_volume v)),
                trace := trace st @ [PropertySet (key s) (numToString (spec_volume v)),
                                     SetStreamVolume (stream_id s) (spec_volume v)]\<rparr>)
         \<and> (\<forall>r. v = Finite r \<longrightarrow> spec_volume v = Finite (of_int (min 100 (max 0 \<lfloor>r\<rfloor>))))"
proof -
  have "AudioBase_at c st (num (stream_id s)) = StreamEntry s"
    using assms(1) by (simp add: AudioBase_at_num)
  then have "setVolume c [num (stream_id s), JNum v] st =
      Returned JUndefined (U_storeVolume s (clamp v) st)"
    using assms(2) by (simp add: setVolume_entry)
  moreover have "U_storeVolume s (clamp v) st =
      st\<lparr>props := (props st)(key s \<mapsto> numToString (spec_volume v)),
         trace := trace st @ [PropertySet (key s) (numToString (spec_volume v)),
                              SetStreamVolume (stream_id s) (spec_volume v)]\<rparr>"
    by (simp add: U_storeVolume_def property_set_def native_setStreamVolume_def floor_clamp Let_def)
  ultimately show ?thesis by (simp add: spec_volume_Finite)
qed

lemma sample_tts:
  "AudioBase (moduleLoad sampleNative Map.empty) 1
     = Some \<lparr>stream_id = 1, stream_name = ''tts'', readonly = False\<rparr>"
  by (simp add: moduleLoad_def init_def sampleNative_def)

theorem setVolume_stores_clamped_floor_witness:
  "setVolume sampleNative [num 1, JNum (Finite 150)] (moduleLoad sampleNative Map.empty) =
     Returned JUndefined
      ((moduleLoad sampleNative Map.empty)
        \<lparr>props := (props (moduleLoad sampleNative Map.empty))(''audio.volume.tts'' \<mapsto> ''100''),
         trace := trace (moduleLoad sampleNative Map.empty) @
                    [PropertySet ''audio.volume.tts'' ''100'', SetStreamVolume 1 (Finite 100)]\<rparr>)
   \<and> setVolume sampleNative [num 1, JNum (Finite (- 10))] (moduleLoad sampleNative Map.empty) =
     Returned JUndefined
      ((moduleLoad sampleNative Map.empty)
        \<lparr>props := (props (moduleLoad sampleNative Map.empty))(''audio.volume.tts'' \<mapsto> ''0''),
         trace := trace (moduleLoad sampleNative Map.empty) @
                    [PropertySet ''audio.volume.tts'' ''0'', SetStreamVolume 1 (Finite 0)]\<rparr>)"
proof -
  let ?s = "\<lparr>stream_id = 1, stream_name = ''tts'', readonly = False\<rparr>"
  have a: "AudioBase (moduleLoad sampleNative Map.empty) (stream_id ?s) = Some ?s"
    using sample_tts by simp
  have b: "\<not> readonly ?s" by simp
  have v: "spec_volume (Finite 150) = Finite 100" "spec_volume (Finite (- 10)) = Finite 0"
    by (simp_all add: spec_volume_def)
  have n: "showInt 100 = ''100''" "showInt 0 = ''0''"
    by (simp_all add: showInt_def showNat.simps)
  show ?thesis
    using setVolume_stores_clamped_floor [OF a b, of sampleNative "Finite 150"]
      setVolume_stores_clamped_floor [OF a b, of sampleNative "Finite (- 10)"]
    by (simp add: v n key_def)
qed

subsection \<open>Streams that cannot be set\<close>

lemma setVolume_invalid:
  assumes "truthy t" and "\<not> truthyEntry (AudioBase_at c st t)"
  shows "setVolume c [t, y] st = Threw (TypeError ''invalid stream type'') st"
  using assms by (subst setVolume.simps) (auto simp: arg_def Let_def)

lemma setVolume_not_number:
  assumes "\<not> (truthy t \<and> \<not> truthyEntry (AudioBase_at c st t))" and "\<forall>v. y \<noteq> JNum v"
  shows "setVolume c [t, y] st = Threw (TypeError ''vol must be a number'') st"
  using assms by (subst setVolume.simps) (auto simp: arg_def Let_def split: jsval.splits)

lemma setVolume_missing:
  assumes "\<not> truthy t" and "t \<noteq> JNull" and "AudioBase_at c st t = Missing"
  shows "setVolume c [t, JNum v] st = Threw (CannotReadProperty ''readonly'') st"
  using assms by (subst setVolume.simps) (simp add: arg_def Let_def)

lemma init_system: "AudioBase (init c st) (STREAM_SYSTEM c) = Some (systemStream c)"
  by (simp add: init_AudioBase systemStream_def)

text \<open>
  Claim C3. In every state whose \<open>AudioBase\<close> is the one \<open>init\<close> builds, setting the
  volume of the system stream fails for every number \<open>v\<close> with the error that the stream
  is readonly, and for every value passed as volume the call throws and leaves the
  state as it was: nothing is stored and nothing is forwarded.
\<close>

theorem setVolume_system_readonly:
  assumes "AudioBase st = AudioBase (init c st0)"
  shows "setVolume c [num (STREAM_SYSTEM c), JNum v] st =
           Threw (Error ''stream type \"system\" is readonly'') st
         \<and> (\<exists>e. setVolume c [num (STREAM_SYSTEM c), y] st = Threw e st)"
proof -
  have e: "AudioBase_at c st (num (STREAM_SYSTEM c)) = StreamEntry (systemStream c)"
    using assms by (simp add: AudioBase_at_num init_system)
  have a: "setVolume c [num (STREAM_SYSTEM c), JNum v] st =
      Threw (Error ''stream type \"system\" is readonly'') st" for v
    using setVolume_entry [OF _ e, of v] by (simp add: systemStream_def)
  have "\<exists>e. setVolume c [num (STREAM_SYSTEM c), y] st = Threw e st"
  proof (cases "\<exists>v. y = JNum v")
    case True
    then show ?thesis using a by auto
  next
    case False
    then show ?thesis using setVolume_not_number [of "num (STREAM_SYSTEM c)" c st y] e by simp
  qed
  with a show ?thesis by simp
qed

theorem setVolume_system_readonly_witness:
  "setVolume sampleNative [num 6, JNum (Finite 30)] (moduleLoad sampleNative Map.empty) =
     Threw (Error ''stream type \"system\" is readonly'') (moduleLoad sampleNative Map.empty)"
proof -
  have "AudioBase (moduleLoad sampleNative Map.empty) =
      AudioBase (init sampleNative \<lparr>props = Map.empty, trace = [], AudioBase = Map.empty,
             DEFAULT_VOLUME = U_getNumber Map.empty ''audio.volume.default'' (Finite 60)\<rparr>)"
    by (simp add: moduleLoad_def)
  from setVolume_system_readonly [OF this, of "Finite 30"]
  show ?thesis by (simp add: sampleNative_def)
qed

text \<open>
  Claim C9. \<open>NaN\<close> is a number, neither comparison of \<open>setVolume\<close> holds for it and
  its floor is \<open>NaN\<close>: on a stream that is not readonly the call returns, after storing
  \<open>NaN\<close> under the key of the stream and forwarding \<open>NaN\<close> to the backend.
\<close>

theorem setVolume_NaN:
  assumes "AudioBase st (stream_id s) = Some s" and "\<not> readonly s"
  shows "setVolume c [num (stream_id s), JNum NaN] st =
           Returned JUndefined
            (st\<lparr>props := (props st)(key s \<mapsto> ''NaN''),
                trace := trace st @ [PropertySet (key s) ''NaN'',
                                     SetStreamVolume (stream_id s) NaN]\<rparr>)
         \<and> \<not> js_lt (Finite 100) NaN \<and> \<not> js_lt NaN (Finite 0) \<and> Math_floor NaN = NaN"
proof -
  have "AudioBase_at c st (num (stream_id s)) = StreamEntry s"
    using assms(1) by (simp add: AudioBase_at_num)
  then have "setVolume c [num (stream_id s), JNum NaN] st =
      Returned JUndefined (U_storeVolume s (clamp NaN) st)"
    using assms(2) by (simp add: setVolume_entry)
  moreover have "clamp NaN = NaN" by (simp add: clamp_def)
  ultimately show ?thesis
    by (simp add: U_storeVolume_def property_set_def native_setStreamVolume_def Let_def)
qed

theorem setVolume_NaN_witness:
  "setVolume sampleNative [num 1, JNum NaN] (moduleLoad sampleNative Map.empty) =
     Returned JUndefined
      ((moduleLoad sampleNative Map.empty)
        \<lparr>props := (props (moduleLoad sampleNative Map.empty))(''audio.volume.tts'' \<mapsto> ''NaN''),
         trace := trace (moduleLoad sampleNative Map.empty) @
                    [PropertySet ''audio.volume.tts'' ''NaN'', SetStreamVolume 1 NaN]\<rparr>)"
proof -
  let ?s = "\<lparr>stream_id = 1, stream_name = ''tts'', readonly = False\<rparr>"
  have a: "AudioBase (moduleLoad sampleNative Map.empty) (stream_id ?s) = Some ?s"
    using sample_tts by simp
  have b: "\<not> readonly ?s" by simp
  show ?thesis
    using setVolume_NaN [OF a b, of sampleNative] by (simp add: key_def)
qed

text \<open>
  Claim C10. When the stream argument is falsy, is not \<open>null\<close> and names no entry of
  \<open>AudioBase\<close>, the check for an invalid stream type is skipped: with a number as volume
  the call fails when it reads \<open>readonly\<close> of \<open>undefined\<close>, and whatever the volume
  is, the call does not fail with the invalid stream type error.
\<close>

theorem setVolume_falsy_stream:
  assumes "\<not> truthy x" and "x \<noteq> JNull" and "AudioBase_at c st x = Missing"
  shows "setVolume c [x, JNum v] st = Threw (CannotReadProperty ''readonly'') st
         \<and> (\<forall>y st'. setVolume c [x, y] st \<noteq> Threw (TypeError ''invalid stream type'') st')"
proof -
  have "setVolume c [x, y] st \<noteq> Threw (TypeError ''invalid stream type'') st'" for y st'
  proof (cases "\<exists>v. y = JNum v")
    case True
    then show ?thesis using setVolume_missing [OF assms] by auto
  next
    case False
    then show ?thesis using setVolume_not_number [of x c st y] assms(1) by simp
  qed
  then show ?thesis using setVolume_missing [OF assms] by simp
qed

lemma sample_lookup_missing:
  "AudioBase_at sampleNative (moduleLoad sampleNative Map.empty) JUndefined = Missing"
  "AudioBase_at sampleNative (moduleLoad sampleNative Map.empty) (JBool False) = Missing"
  "AudioBase_at sampleNative (moduleLoad sampleNative Map.empty) (JStr []) = Missing"
  "AudioBase_at sampleNative (moduleLoad sampleNative Map.empty) (JNum NaN) = Missing"
  by (simp_all add: AudioBase_at_def sampleNative_def canonicalInt_def isPrefixOf_def
      digitsValue_def showInt_def showNat.simps)

theorem setVolume_falsy_stream_witness:
  "setVolume sampleNative [JUndefined, JNum (Finite 50)] (moduleLoad sampleNative Map.empty)
     = Threw (CannotReadProperty ''readonly'') (moduleLoad sampleNative Map.empty)
   \<and> setVolume sampleNative [JBool False, JNum (Finite 50)] (moduleLoad sampleNative Map.empty)
     = Threw (CannotReadProperty ''readonly'') (moduleLoad sampleNative Map.empty)
   \<and> setVolume sampleNative [JStr [], JNum (Finite 50)] (moduleLoad sampleNative Map.empty)
     = Threw (CannotReadProperty ''readonly'') (moduleLoad sampleNative Map.empty)
   \<and> setVolume sampleNative [JNum NaN, JNum (Finite 50)] (moduleLoad sampleNative Map.empty)
     = Threw (CannotReadProperty ''readonly'') (moduleLoad sampleNative Map.empty)"
  using setVolume_falsy_stream [OF _ _ sample_lookup_missing(1), of "Finite 50"]
    setVolume_falsy_stream [OF _ _ sample_lookup_missing(2), of "Finite 50"]
    setVolume_falsy_stream [OF _ _ sample_lookup_missing(3), of "Finite 50"]
    setVolume_falsy_stream [OF _ _ sample_lookup_missing(4), of "Finite 50"]
  by simp

subsection \<open>Reading a volume\<close>

text \<open>
  Claim C5. With no argument, or with \<open>undefined\<close>, \<open>getVolume\<close> reads the stream that
  \<open>AudioBase\<close> holds under \<open>native.STREAM_TTS\<close>, whose key is \<open>audio.volume.tts\<close>. With
  an argument that names no entry of \<open>AudioBase\<close>, as every number does that no stream is
  registered under, it throws the invalid stream type error. (A string that names
  \<open>DEFAULT_VOLUME\<close> or an inherited member names an entry of the object, though not a
  stream.) For a stream entry it returns \<open>false\<close> when the stored string does not
  parse, the parsed number otherwise.
\<close>

theorem getVolume_cases:
  "(AudioBase st (STREAM_TTS c) = Some (ttsStream c) \<longrightarrow>
      getVolume c [] st = Returned (U_getVolume (ttsStream c) st) st
    \<and> getVolume c [JUndefined] st = Returned (U_getVolume (ttsStream c) st) st
    \<and> key (ttsStream c) = ''audio.volume.tts'')
   \<and> (x \<noteq> JUndefined \<and> AudioBase_at c st x = Missing \<longrightarrow>
      getVolume c [x] st = Threw (TypeError ''invalid stream type'') st)
   \<and> (AudioBase st i = None \<longrightarrow>
      getVolume c [num i] st = Threw (TypeError ''invalid stream type'') st)
   \<and> (x \<noteq> JUndefined \<and> AudioBase_at c st x = StreamEntry s \<longrightarrow>
      getVolume c [x] st =
        Returned (if isNaN (parseInt (property_get (props st) (key s))) then JBool False
                  else JNum (parseInt (property_get (props st) (key s)))) st)"
  by (simp add: getVolume_def arg_def AudioBase_at_num U_getVolume_def key_def ttsStream_def
      Let_def)

lemma garbledState_fields:
  "AudioBase garbledState 1 = Some (ttsStream sampleNative)"
  "AudioBase garbledState 9999 = None"
  "AudioBase_at sampleNative garbledState (num 2)
     = StreamEntry \<lparr>stream_id = 2, stream_name = ''ring'', readonly = False\<rparr>"
  "props garbledState ''audio.volume.tts'' = Some ''abc''"
  "props garbledState ''audio.volume.ring'' = Some '' 42''"
  by (simp_all add: garbledState_def moduleLoad_def init_AudioBase sampleNative_def
      ttsStream_def AudioBase_at_num)

lemma parseInt_samples: "parseInt ''abc'' = NaN" "parseInt '' 42'' = Finite 42"
  by (simp_all add: parseInt_def isPrefixOf_def isWhiteSpace_def isDigitOf_def digitValue_def
      digitsValue_def)

theorem getVolume_cases_witness:
  "getVolume sampleNative [] garbledState = Returned (JBool False) garbledState
   \<and> getVolume sampleNative [num 9999] garbledState
       = Threw (TypeError ''invalid stream type'') garbledState
   \<and> getVolume sampleNative [num 2] garbledState = Returned (JNum (Finite 42)) garbledState"
proof -
  have t: "AudioBase garbledState (STREAM_TTS sampleNative) = Some (ttsStream sampleNative)"
    using garbledState_fields(1) by (simp add: sampleNative_def)
  note th = getVolume_cases [of garbledState sampleNative "num 2" 9999
      "\<lparr>stream_id = 2, stream_name = ''ring'', readonly = False\<rparr>"]
  show ?thesis
    using th t garbledState_fields(2-5)
    by (simp add: U_getVolume_def property_get_def key_def ttsStream_def parseInt_samples)
qed

subsection \<open>Setting the volume of four streams at once\<close>

lemma clamp_idem [simp]: "clamp (clamp v) = clamp v"
  by (cases v) (auto simp: clamp_def)

lemma setVolume_broadcast:
  "setVolume c [JNum v] st = setEach c (broadcastTargets c) (clamp v) st"
  by (subst setVolume.simps)
     (simp add: arg_def Let_def clamp_def broadcastTargets_def cong: outcome.case_cong)

lemma setVolume_num_cases:
  "setVolume c [num i, JNum w] st =
     (case AudioBase st i of
        None \<Rightarrow> (if i = 0 then Threw (CannotReadProperty ''readonly'') st
                 else Threw (TypeError ''invalid stream type'') st)
      | Some s \<Rightarrow>
          if readonly s
          then Threw (Error (''stream type \"'' @ stream_name s @ ''\" is readonly'')) st
          else Returned JUndefined (U_storeVolume s (clamp w) st))"
proof (cases "AudioBase st i")
  case None
  then have m: "AudioBase_at c st (num i) = Missing" by (simp add: AudioBase_at_num)
  show ?thesis
  proof (cases "i = 0")
    case True
    then have "\<not> truthy (num i)" by (simp add: num_def)
    then show ?thesis using setVolume_missing [OF _ _ m] None True by simp
  next
    case False
    then have "truthy (num i)" by (simp add: num_def)
    then show ?thesis using setVolume_invalid [of "num i" c st] m None False by simp
  qed
next
  case (Some s)
  then have "AudioBase_at c st (num i) = StreamEntry s" by (simp add: AudioBase_at_num)
  then show ?thesis using Some setVolume_entry [of "num i" c st s w] by simp
qed

lemma setVolume_num_Threw:
  assumes "setVolume c [num i, JNum w] st = Threw e s'"
  shows "s' = st"
  using assms by (auto simp: setVolume_num_cases split: option.splits if_splits)

lemma setVolume_num_modelled: "setVolume c [num i, JNum w] st \<noteq> Unmodelled"
  by (auto simp: setVolume_num_cases split: option.splits)

lemma setEach_Threw:
  assumes "setEach c ids w st = Threw e s'"
  shows "\<exists>pre i post. ids = pre @ i # post
           \<and> setEach c pre w st = Returned JUndefined s'
           \<and> setVolume c [num i, JNum w] s' = Threw e s'"
  using assms
proof (induction ids arbitrary: st)
  case Nil
  then show ?case by simp
next
  case (Cons j js)
  show ?case
  proof (cases "setVolume c [num j, JNum w] st")
    case (Returned r s)
    with Cons.prems have "setEach c js w s = Threw e s'" by simp
    from Cons.IH [OF this] obtain pre i post where
      p: "js = pre @ i # post" "setEach c pre w s = Returned JUndefined s'"
         "setVolume c [num i, JNum w] s' = Threw e s'" by blast
    have "j # js = (j # pre) @ i # post" using p(1) by simp
    moreover have "setEach c (j # pre) w st = Returned JUndefined s'"
      using Returned p(2) by simp
    ultimately show ?thesis using p(3) by blast
  next
    case (Threw e1 s1)
    with Cons.prems have eq: "e1 = e" "s1 = s'" by simp_all
    have "s1 = st" using setVolume_num_Threw [OF Threw] .
    then have "j # js = [] @ j # js \<and> setEach c [] w st = Returned JUndefined s'
        \<and> setVolume c [num j, JNum w] s' = Threw e s'"
      using Threw eq by simp
    then show ?thesis by blast
  next
    case Unmodelled
    then show ?thesis using setVolume_num_modelled by simp
  qed
qed

lemma init_broadcast_entries:
  assumes "distinct (map stream_id (catalog c))"
  shows "AudioBase (init c st) (STREAM_AUDIO c) = Some (audioStream c)"
    and "AudioBase (init c st) (STREAM_PLAYBACK c) = Some (playbackStream c)"
    and "AudioBase (init c st) (STREAM_TTS c) = Some (ttsStream c)"
    and "AudioBase (init c st) (STREAM_RING c) = Some (ringStream c)"
proof -
  have d: "distinct [STREAM_AUDIO c, STREAM_TTS c, STREAM_RING c, STREAM_VOICE_CALL c,
      STREAM_PLAYBACK c, STREAM_ALARM c, STREAM_SYSTEM c]"
    using assms by (simp add: catalog_def)
  show "AudioBase (init c st) (STREAM_AUDIO c) = Some (audioStream c)"
    using d by (simp add: init_AudioBase audioStream_def)
  show "AudioBase (init c st) (STREAM_PLAYBACK c) = Some (playbackStream c)"
    using d by (simp add: init_AudioBase playbackStream_def)
  show "AudioBase (init c st) (STREAM_TTS c) = Some (ttsStream c)"
    using d by (simp add: init_AudioBase ttsStream_def)
  show "AudioBase (init c st) (STREAM_RING c) = Some (ringStream c)"
    using d by (simp add: init_AudioBase ringStream_def)
qed

lemma setVolume_num_store:
  assumes "AudioBase st i = Some s" and "\<not> readonly s"
  shows "setVolume c [num i, JNum (clamp v)] st = Returned JUndefined (U_storeVolume s (clamp v) st)"
  using assms by (simp add: setVolume_num_cases)

lemma AudioBase_U_storeVolume: "AudioBase (U_storeVolume s v st) = AudioBase st"
  by simp

text \<open>
  Claim C6. With the stream argument omitted and a number as volume, in a state whose
  \<open>AudioBase\<close> is the one \<open>init\<close> builds over distinct identifiers, \<open>setVolume\<close> returns
  after storing and forwarding the same clamped volume for audio, playback, tts and ring,
  in this order, and for no other stream: the calls that leave the module are these
  eight. In any state, when the broadcast throws, the state it leaves is the one the
  sub-calls before the failing one produced: the failing sub-call changes nothing and
  nothing of the earlier ones is undone.
\<close>

theorem setVolume_broadcast_four:
  "(AudioBase st = AudioBase (init c st0) \<and> distinct (map stream_id (catalog c)) \<longrightarrow>
      setVolume c [JNum v] st =
        Returned JUndefined
         (U_storeVolume (ringStream c) (clamp v)
           (U_storeVolume (ttsStream c) (clamp v)
             (U_storeVolume (playbackStream c) (clamp v)
               (U_storeVolume (audioStream c) (clamp v) st)))))
   \<and> trace (U_storeVolume (ringStream c) (clamp v)
             (U_storeVolume (ttsStream c) (clamp v)
               (U_storeVolume (playbackStream c) (clamp v)
                 (U_storeVolume (audioStream c) (clamp v) st)))) =
         trace st @
          [PropertySet ''audio.volume.audio'' (numToString (spec_volume v)),
           SetStreamVolume (STREAM_AUDIO c) (spec_volume v),
           PropertySet ''audio.volume.playback'' (numToString (spec_volume v)),
           SetStreamVolume (STREAM_PLAYBACK c) (spec_volume v),
           PropertySet ''audio.volume.tts'' (numToString (spec_volume v)),
           SetStreamVolume (STREAM_TTS c) (spec_volume v),
           PropertySet ''audio.volume.ring'' (numToString (spec_volume v)),
           SetStreamVolume (STREAM_RING c) (spec_volume v)]
   \<and> (setVolume c [JNum v] st = Threw e s' \<longrightarrow>
        (\<exists>pre i post. broadcastTargets c = pre @ i # post
           \<and> setEach c pre (clamp v) st = Returned JUndefined s'
           \<and> setVolume c [num i, JNum (clamp v)] s' = Threw e s'))"
proof (intro conjI impI)
  assume h: "AudioBase st = AudioBase (init c st0) \<and> distinct (map stream_id (catalog c))"
  then have d: "distinct (map stream_id (catalog c))" and r: "AudioBase st = AudioBase (init c st0)"
    by simp_all
  note e = init_broadcast_entries [OF d, of st0]
  let ?w = "clamp v"
  let ?s1 = "U_storeVolume (audioStream c) ?w st"
  let ?s2 = "U_storeVolume (playbackStream c) ?w ?s1"
  let ?s3 = "U_storeVolume (ttsStream c) ?w ?s2"
  have 1: "setVolume c [num (STREAM_AUDIO c), JNum ?w] st = Returned JUndefined ?s1"
    by (rule setVolume_num_store) (simp_all add: r e audioStream_def)
  have 2: "setVolume c [num (STREAM_PLAYBACK c), JNum ?w] ?s1 = Returned JUndefined ?s2"
    by (rule setVolume_num_store) (simp_all add: r e playbackStream_def)
  have 3: "setVolume c [num (STREAM_TTS c), JNum ?w] ?s2 = Returned JUndefined ?s3"
    by (rule setVolume_num_store) (simp_all add: r e ttsStream_def)
  have 4: "setVolume c [num (STREAM_RING c), JNum ?w] ?s3 =
      Returned JUndefined (U_storeVolume (ringStream c) ?w ?s3)"
    by (rule setVolume_num_store) (simp_all add: r e ringStream_def)
  show "setVolume c [JNum v] st = Returned JUndefined (U_storeVolume (ringStream c) ?w ?s3)"
    by (simp add: setVolume_broadcast broadcastTargets_def 1 2 3 4)
next
  show "trace (U_storeVolume (ringStream c) (clamp v)
             (U_storeVolume (ttsStream c) (clamp v)
               (U_storeVolume (playbackStream c) (clamp v)
                 (U_storeVolume (audioStream c) (clamp v) st)))) =
         trace st @
          [PropertySet ''audio.volume.audio'' (numToString (spec_volume v)),
           SetStreamVolume (STREAM_AUDIO c) (spec_volume v),
           PropertySet ''audio.volume.playback'' (numToString (spec_volume v)),
           SetStreamVolume (STREAM_PLAYBACK c) (spec_volume v),
           PropertySet ''audio.volume.tts'' (numToString (spec_volume v)),
           SetStreamVolume (STREAM_TTS c) (spec_volume v),
           PropertySet ''audio.volume.ring'' (numToString (spec_volume v)),
           SetStreamVolume (STREAM_RING c) (spec_volume v)]"
    by (simp add: floor_clamp key_def audioStream_def playbackStream_def ttsStream_def
        ringStream_def)
next
  assume "setVolume c [JNum v] st = Threw e s'"
  then have "setEach c (broadcastTargets c) (clamp v) st = Threw e s'"
    by (simp add: setVolume_broadcast)
  then show "\<exists>pre i post. broadcastTargets c = pre @ i # post
           \<and> setEach c pre (clamp v) st = Returned JUndefined s'
           \<and> setVolume c [num i, JNum (clamp v)] s' = Threw e s'"
    by (rule setEach_Threw)
qed

lemma sample_distinct: "distinct (map stream_id (catalog sampleNative))"
  by (simp add: catalog_def sampleNative_def)

lemma readonlyTtsState_entries:
  "AudioBase readonlyTtsState 0 = Some (audioStream sampleNative)"
  "AudioBase readonlyTtsState 4 = Some (playbackStream sampleNative)"
  "AudioBase readonlyTtsState 1 = Some \<lparr>stream_id = 1, stream_name = ''tts'', readonly = True\<rparr>"
  by (simp_all add: readonlyTtsState_def moduleLoad_def init_AudioBase sampleNative_def
      audioStream_def playbackStream_def)

lemma readonlyTtsState_broadcast:
  "setVolume sampleNative [JNum (Finite 50)] readonlyTtsState =
     Threw (Error ''stream type \"tts\" is readonly'')
      (U_storeVolume (playbackStream sampleNative) (Finite 50)
        (U_storeVolume (audioStream sampleNative) (Finite 50) readonlyTtsState))"
proof -
  have c: "clamp (Finite 50) = Finite 50" by (simp add: clamp_def)
  have s: "STREAM_AUDIO sampleNative = 0" "STREAM_PLAYBACK sampleNative = 4"
    "STREAM_TTS sampleNative = 1" "STREAM_RING sampleNative = 2"
    by (simp_all add: sampleNative_def)
  have r: "\<not> readonly (audioStream sampleNative)" "\<not> readonly (playbackStream sampleNative)"
    by (simp_all add: audioStream_def playbackStream_def)
  show ?thesis
    unfolding setVolume_broadcast broadcastTargets_def s c
    by (simp add: setVolume_num_cases readonlyTtsState_entries r c)
qed

theorem setVolume_broadcast_four_witness:
  "trace (U_storeVolume (ringStream sampleNative) (clamp (Finite 150))
           (U_storeVolume (ttsStream sampleNative) (clamp (Finite 150))
             (U_storeVolume (playbackStream sampleNative) (clamp (Finite 150))
               (U_storeVolume (audioStream sampleNative) (clamp (Finite 150))
                 (moduleLoad sampleNative Map.empty))))) =
     trace (moduleLoad sampleNative Map.empty) @
      [PropertySet ''audio.volume.audio'' ''100'', SetStreamVolume 0 (Finite 100),
       PropertySet ''audio.volume.playback'' ''100'', SetStreamVolume 4 (Finite 100),
       PropertySet ''audio.volume.tts'' ''100'', SetStreamVolume 1 (Finite 100),
       PropertySet ''audio.volume.ring'' ''100'', SetStreamVolume 2 (Finite 100)]
   \<and> setVolume sampleNative [JNum (Finite 150)] (moduleLoad sampleNative Map.empty) =
       Returned JUndefined
        (U_storeVolume (ringStream sampleNative) (clamp (Finite 150))
          (U_storeVolume (ttsStream sampleNative) (clamp (Finite 150))
            (U_storeVolume (playbackStream sampleNative) (clamp (Finite 150))
              (U_storeVolume (audioStream sampleNative) (clamp (Finite 150))
                (moduleLoad sampleNative Map.empty)))))
   \<and> (\<exists>pre i post. broadcastTargets sampleNative = pre @ i # post
         \<and> setEach sampleNative pre (clamp (Finite 50)) readonlyTtsState =
             Returned JUndefined
              (U_storeVolume (playbackStream sampleNative) (Finite 50)
                (U_storeVolume (audioStream sampleNative) (Finite 50) readonlyTtsState))
         \<and> setVolume sampleNative [num i, JNum (clamp (Finite 50))]
              (U_storeVolume (playbackStream sampleNative) (Finite 50)
                (U_storeVolume (audioStream sampleNative) (Finite 50) readonlyTtsState)) =
             Threw (Error ''stream type \"tts\" is readonly'')
              (U_storeVolume (playbackStream sampleNative) (Finite 50)
                (U_storeVolume (audioStream sampleNative) (Finite 50) readonlyTtsState)))"
proof -
  have a: "AudioBase (moduleLoad sampleNative Map.empty) =
      AudioBase (init sampleNative \<lparr>props = Map.empty, trace = [], AudioBase = Map.empty,
             DEFAULT_VOLUME = U_getNumber Map.empty ''audio.volume.default'' (Finite 60)\<rparr>)"
    by (simp add: moduleLoad_def)
  have v: "spec_volume (Finite 150) = Finite 100" by (simp add: spec_volume_def)
  have n: "showInt 100 = ''100''" by (simp add: showInt_def showNat.simps)
  have s: "STREAM_AUDIO sampleNative = 0" "STREAM_PLAYBACK sampleNative = 4"
    "STREAM_TTS sampleNative = 1" "STREAM_RING sampleNative = 2"
    by (simp_all add: sampleNative_def)
  note th = setVolume_broadcast_four [of "moduleLoad sampleNative Map.empty" sampleNative _
      "Finite 150"]
  note tb = setVolume_broadcast_four [of readonlyTtsState sampleNative _ "Finite 50",
      THEN conjunct2, THEN conjunct2, rule_format, OF readonlyTtsState_broadcast]
  have 1: "trace (U_storeVolume (ringStream sampleNative) (clamp (Finite 150))
           (U_storeVolume (ttsStream sampleNative) (clamp (Finite 150))
             (U_storeVolume (playbackStream sampleNative) (clamp (Finite 150))
               (U_storeVolume (audioStream sampleNative) (clamp (Finite 150))
                 (moduleLoad sampleNative Map.empty))))) =
     trace (moduleLoad sampleNative Map.empty) @
      [PropertySet ''audio.volume.audio'' ''100'', SetStreamVolume 0 (Finite 100),
       PropertySet ''audio.volume.playback'' ''100'', SetStreamVolume 4 (Finite 100),
       PropertySet ''audio.volume.tts'' ''100'', SetStreamVolume 1 (Finite 100),
       PropertySet ''audio.volume.ring'' ''100'', SetStreamVolume 2 (Finite 100)]"
    using th [THEN conjunct2, THEN conjunct1] by (simp only: v s numToString.simps) (simp add: n)
  have 2: "setVolume sampleNative [JNum (Finite 150)] (moduleLoad sampleNative Map.empty) =
       Returned JUndefined
        (U_storeVolume (ringStream sampleNative) (clamp (Finite 150))
          (U_storeVolume (ttsStream sampleNative) (clamp (Finite 150))
            (U_storeVolume (playbackStream sampleNative) (clamp (Finite 150))
              (U_storeVolume (audioStream sampleNative) (clamp (Finite 150))
                (moduleLoad sampleNative Map.empty)))))"
    using th [THEN conjunct1, rule_format, OF conjI, OF a sample_distinct] .
  from 1 2 tb show ?thesis by blast
qed

subsection \<open>The volume curve\<close>

lemma curveCalls_Cons:
  "i < n \<Longrightarrow> curveCalls shape i n = SetCurveForVolume i (elementAt shape i) # curveCalls shape (Suc i) n"
  by (simp add: curveCalls_def upt_conv_Cons)

lemma setCurves_accepted:
  assumes "\<forall>j. i \<le> j \<and> j \<le> m \<longrightarrow> setCurveForVolume c j (elementAt shape j)"
  shows "setCurves c shape i m st =
           Returned (JBool True) (st\<lparr>trace := trace st @ curveCalls shape i (Suc m)\<rparr>)"
  using assms
proof (induction "Suc m - i" arbitrary: i st)
  case 0
  then have "\<not> i \<le> m" by simp
  then show ?case by (subst setCurves.simps) (simp add: curveCalls_def)
next
  case (Suc n)
  then have le: "i \<le> m" and acc: "setCurveForVolume c i (elementAt shape i)" by simp_all
  let ?st = "st\<lparr>trace := trace st @ [SetCurveForVolume i (elementAt shape i)]\<rparr>"
  have "setCurves c shape (Suc i) m ?st =
      Returned (JBool True) (?st\<lparr>trace := trace ?st @ curveCalls shape (Suc i) (Suc m)\<rparr>)"
    using Suc.hyps(2) Suc.prems by (intro Suc.hyps(1)) auto
  then show ?case
    using le acc by (subst setCurves.simps) (simp add: Let_def curveCalls_Cons)
qed

lemma setCurves_rejected:
  assumes "i \<le> k" and "k \<le> m"
    and "\<forall>j. i \<le> j \<and> j < k \<longrightarrow> setCurveForVolume c j (elementAt shape j)"
    and "\<not> setCurveForVolume c k (elementAt shape k)"
  shows "setCurves c shape i m st =
           Threw (RangeError ''out of range when set volume shape.'')
            (st\<lparr>trace := trace st @ curveCalls shape i (Suc k)\<rparr>)"
  using assms
proof (induction "k - i" arbitrary: i st)
  case 0
  then have "i = k" by simp
  then show ?case
    using 0 by (subst setCurves.simps) (simp add: Let_def curveCalls_def)
next
  case (Suc n)
  then have lt: "i < k" and le: "i \<le> m" and acc: "setCurveForVolume c i (elementAt shape i)"
    by simp_all
  let ?st = "st\<lparr>trace := trace st @ [SetCurveForVolume i (elementAt shape i)]\<rparr>"
  have "setCurves c shape (Suc i) m ?st =
      Threw (RangeError ''out of range when set volume shape.'')
       (?st\<lparr>trace := trace ?st @ curveCalls shape (Suc i) (Suc k)\<rparr>)"
    using Suc.hyps(2) Suc.prems by (intro Suc.hyps(1)) auto
  then show ?case
    using lt le acc by (subst setCurves.simps) (simp add: Let_def curveCalls_Cons)
qed

text \<open>
  Claim C4. \<open>setVolumeShaper\<close> calls the shaper with 100. When the result is not an array
  it throws the error of the shaper and forwards nothing. When it is an array, it forwards
  the points \<open>(i, shape[i])\<close> in increasing order of \<open>i\<close>: all 101 of them, for the indices
  0 to 100, and returns \<open>true\<close> when the backend accepts every one; when \<open>k\<close> is the first
  index it rejects, the points 0 to \<open>k\<close> have been forwarded, the range error is thrown,
  and the state keeps these calls.
\<close>

theorem setVolumeShaper_cases:
  "(shaper (Finite 100) = NotArray \<longrightarrow>
      setVolumeShaper c shaper st =
        Threw (Error ''shaper function should return an array with 100 elements.'') st)
   \<and> (shaper (Finite 100) = ArrayOf shape
        \<and> (\<forall>j \<le> 100. setCurveForVolume c j (elementAt shape j)) \<longrightarrow>
      setVolumeShaper c shaper st =
        Returned (JBool True) (st\<lparr>trace := trace st @ curveCalls shape 0 101\<rparr>))
   \<and> (shaper (Finite 100) = ArrayOf shape \<and> k \<le> 100
        \<and> (\<forall>j < k. setCurveForVolume c j (elementAt shape j))
        \<and> \<not> setCurveForVolume c k (elementAt shape k) \<longrightarrow>
      setVolumeShaper c shaper st =
        Threw (RangeError ''out of range when set volume shape.'')
         (st\<lparr>trace := trace st @ curveCalls shape 0 (Suc k)\<rparr>))
   \<and> length (curveCalls shape 0 101) = 101
   \<and> (\<forall>j < 101. curveCalls shape 0 101 ! j = SetCurveForVolume j (elementAt shape j))"
proof (intro conjI impI)
  assume "shaper (Finite 100) = NotArray"
  then show "setVolumeShaper c shaper st =
        Threw (Error ''shaper function should return an array with 100 elements.'') st"
    by (simp add: setVolumeShaper_def)
next
  assume a: "shaper (Finite 100) = ArrayOf shape
        \<and> (\<forall>j \<le> 100. setCurveForVolume c j (elementAt shape j))"
  then have "setCurves c shape 0 100 st =
      Returned (JBool True) (st\<lparr>trace := trace st @ curveCalls shape 0 (Suc 100)\<rparr>)"
    by (intro setCurves_accepted) simp
  then show "setVolumeShaper c shaper st =
        Returned (JBool True) (st\<lparr>trace := trace st @ curveCalls shape 0 101\<rparr>)"
    using a by (simp add: setVolumeShaper_def)
next
  assume a: "shaper (Finite 100) = ArrayOf shape \<and> k \<le> 100
        \<and> (\<forall>j < k. setCurveForVolume c j (elementAt shape j))
        \<and> \<not> setCurveForVolume c k (elementAt shape k)"
  then have "setCurves c shape 0 100 st =
      Threw (RangeError ''out of range when set volume shape.'')
         (st\<lparr>trace := trace st @ curveCalls shape 0 (Suc k)\<rparr>)"
    by (intro setCurves_rejected) simp_all
  then show "setVolumeShaper c shaper st =
        Threw (RangeError ''out of range when set volume shape.'')
         (st\<lparr>trace := trace st @ curveCalls shape 0 (Suc k)\<rparr>)"
    using a by (simp add: setVolumeShaper_def)
next
  show "length (curveCalls shape 0 101) = 101" by (simp add: curveCalls_def)
next
  show "\<forall>j < 101. curveCalls shape 0 101 ! j = SetCurveForVolume j (elementAt shape j)"
    by (simp add: curveCalls_def)
qed

lemma ramp_elementAt:
  "j \<le> 100 \<Longrightarrow> elementAt (map num [0..100]) j = num (int j)"
  by (simp add: elementAt_def)

lemma sample_accepts_ramp:
  "\<forall>j \<le> 100. setCurveForVolume sampleNative j (elementAt (map num [0..100]) j)"
  by (simp add: ramp_elementAt sampleNative_def num_def)

theorem setVolumeShaper_cases_witness:
  "setVolumeShaper sampleNative (\<lambda>len. NotArray) (moduleLoad sampleNative Map.empty) =
     Threw (Error ''shaper function should return an array with 100 elements.'')
      (moduleLoad sampleNative Map.empty)
   \<and> setVolumeShaper sampleNative (\<lambda>len. ArrayOf (map num [0..100]))
        (moduleLoad sampleNative Map.empty) =
       Returned (JBool True)
        ((moduleLoad sampleNative Map.empty)
          \<lparr>trace := trace (moduleLoad sampleNative Map.empty) @
                     curveCalls (map num [0..100]) 0 101\<rparr>)
   \<and> setVolumeShaper sampleNative (\<lambda>len. ArrayOf [num 0, num 1, num 200])
        (moduleLoad sampleNative Map.empty) =
       Threw (RangeError ''out of range when set volume shape.'')
        ((moduleLoad sampleNative Map.empty)
          \<lparr>trace := trace (moduleLoad sampleNative Map.empty) @
                     [SetCurveForVolume 0 (num 0), SetCurveForVolume 1 (num 1),
                      SetCurveForVolume 2 (num 200)]\<rparr>)"
proof -
  let ?st = "moduleLoad sampleNative Map.empty"
  have 1: "setVolumeShaper sampleNative (\<lambda>len. NotArray) ?st =
     Threw (Error ''shaper function should return an array with 100 elements.'') ?st"
    using setVolumeShaper_cases [of "\<lambda>len. NotArray" sampleNative ?st] by simp
  have 2: "setVolumeShaper sampleNative (\<lambda>len. ArrayOf (map num [0..100])) ?st =
       Returned (JBool True) (?st\<lparr>trace := trace ?st @ curveCalls (map num [0..100]) 0 101\<rparr>)"
    using setVolumeShaper_cases [of "\<lambda>len. ArrayOf (map num [0..100])" sampleNative ?st
        "map num [0..100]"] sample_accepts_ramp by simp
  have e: "elementAt [num 0, num 1, num 200] 0 = num 0"
    "elementAt [num 0, num 1, num 200] (Suc 0) = num 1"
    "elementAt [num 0, num 1, num 200] 2 = num 200"
    by (simp_all add: elementAt_def)
  have lt2: "j < 2 \<longleftrightarrow> j = 0 \<or> j = Suc 0" for j :: nat by auto
  have h: "(2::nat) \<le> 100
      \<and> (\<forall>j < 2. setCurveForVolume sampleNative j (elementAt [num 0, num 1, num 200] j))
      \<and> \<not> setCurveForVolume sampleNative 2 (elementAt [num 0, num 1, num 200] 2)"
    by (auto simp: lt2 elementAt_def sampleNative_def num_def)
  have u: "curveCalls [num 0, num 1, num 200] 0 (Suc 2) =
      [SetCurveForVolume 0 (num 0), SetCurveForVolume 1 (num 1), SetCurveForVolume 2 (num 200)]"
    by (simp add: curveCalls_def upt_conv_Cons elementAt_def del: upt_Suc)
  have 3: "setVolumeShaper sampleNative (\<lambda>len. ArrayOf [num 0, num 1, num 200]) ?st =
       Threw (RangeError ''out of range when set volume shape.'')
        (?st\<lparr>trace := trace ?st @
                     [SetCurveForVolume 0 (num 0), SetCurveForVolume 1 (num 1),
                      SetCurveForVolume 2 (num 200)]\<rparr>)"
    using setVolumeShaper_cases [of "\<lambda>len. ArrayOf [num 0, num 1, num 200]" sampleNative ?st
        "[num 0, num 1, num 200]" 2] h
    unfolding u by simp
  from 1 2 3 show ?thesis by simp
qed

subsection \<open>Numerals that are written and read back\<close>

lemma digit_nth_isDec: "d < 10 \<Longrightarrow> isDec (''0123456789'' ! d)"
  unfolding isDec_def by (rule nth_mem) simp

lemma digitValue_nth: "d < 10 \<Longrightarrow> digitValue (''0123456789'' ! d) = Some d"
proof -
  assume "d < 10"
  then have "d \<in> {0,1,2,3,4,5,6,7,8,9}" by auto
  then show ?thesis by (auto simp: digitValue_def)
qed

lemma isDec_facts:
  assumes "isDec ch"
  shows "\<not> isWhiteSpace ch" "isDigitOf 10 ch" "ch \<noteq> CHR ''-''" "ch \<noteq> CHR ''+''"
    "ch \<noteq> CHR ''x''" "ch \<noteq> CHR ''X''"
  using assms by (auto simp: isDec_def isWhiteSpace_def isDigitOf_def digitValue_def)

lemma showNat_isDec: "\<forall>ch \<in> set (showNat n). isDec ch"
proof (induction n rule: showNat.induct)
  case (1 n)
  show ?case
  proof (cases "n < 10")
    case True
    then show ?thesis by (simp add: showNat.simps [of n] digit_nth_isDec)
  next
    case False
    with 1 show ?thesis by (simp add: showNat.simps [of n] digit_nth_isDec)
  qed
qed

lemma showNat_nonempty: "showNat n \<noteq> []"
  by (subst showNat.simps) simp

lemma digitsValue_snoc:
  "digitsValue R (ds @ [ch]) =
     digitsValue R ds * R + (case digitValue ch of None \<Rightarrow> 0 | Some d \<Rightarrow> d)"
  by (simp add: digitsValue_def)

lemma digitsValue_showNat: "digitsValue 10 (showNat n) = n"
proof (induction n rule: showNat.induct)
  case (1 n)
  show ?case
  proof (cases "n < 10")
    case True
    then show ?thesis by (simp add: showNat.simps [of n] digitsValue_def digitValue_nth)
  next
    case False
    with 1 show ?thesis
      by (simp add: showNat.simps [of n] digitsValue_snoc digitValue_nth)
  qed
qed

lemma parseInt_decimal:
  assumes "ds \<noteq> []" and "\<forall>ch \<in> set ds. isDec ch"
  shows "parseInt ds = Finite (of_nat (digitsValue 10 ds))"
    and "parseInt (CHR ''-'' # ds) = Finite (- of_nat (digitsValue 10 ds))"
proof -
  obtain a as where ds: "ds = a # as" using assms(1) by (cases ds) auto
  have a: "isDec a" using assms(2) ds by simp
  have nw: "dropWhile isWhiteSpace ds = ds" using a ds by (simp add: isDec_facts)
  have t1: "\<not> isPrefixOf ''-'' ds" "\<not> isPrefixOf ''+'' ds"
    using a ds by (auto simp: isDec_facts isPrefixOf_def)
  have t2: "\<not> isPrefixOf ''0x'' ds" "\<not> isPrefixOf ''0X'' ds"
    using assms(2) ds by (cases as; auto simp: isDec_facts isPrefixOf_def)+
  have m: "isPrefixOf ''-'' (CHR ''-'' # ds)" by (simp add: isPrefixOf_def)
  have tw: "takeWhile (isDigitOf 10) ds = ds" using assms(2) by (simp add: isDec_facts)
  show "parseInt ds = Finite (of_nat (digitsValue 10 ds))"
    using assms(1) by (simp add: parseInt_def nw t1 t2 tw)
  show "parseInt (CHR ''-'' # ds) = Finite (- of_nat (digitsValue 10 ds))"
    using assms(1) by (simp add: parseInt_def isWhiteSpace_def m t2 tw)
qed

lemma parseInt_showInt: "parseInt (showInt i) = Finite (of_int i)"
proof (cases "i < 0")
  case True
  then show ?thesis
    by (simp add: showInt_def parseInt_decimal(2) [OF showNat_nonempty showNat_isDec]
        digitsValue_showNat)
next
  case False
  then show ?thesis
    by (simp add: showInt_def parseInt_decimal(1) [OF showNat_nonempty showNat_isDec]
        digitsValue_showNat)
qed



lemma parseInt_stored_Finite:
  "parseInt (numToString (Math_floor (Finite r))) = Finite (of_int \<lfloor>r\<rfloor>)"
  by (simp add: parseInt_showInt)

subsection \<open>Defining a stream\<close>








subsection \<open>Initialisation\<close>

lemma hasVolume_AudioBase_update [simp]: "hasVolume (st\<lparr>AudioBase := a\<rparr>) n = hasVolume st n"
  by (simp add: hasVolume_def)















subsection \<open>The path resolver\<close>

lemma resolve_Null [simp]: "resolve Null segs = Inr Null"
  by (cases segs) simp_all

lemma resolve_Absent [simp]: "resolve Absent segs = Inr Absent"
  by (cases segs) simp_all

lemma getProperty_total:
  assumes "v \<noteq> Null" and "v \<noteq> Absent"
  shows "\<exists>v'. getProperty v seg = Inr v'"
  using assms by (cases v) (auto split: option.splits)

lemma resolve_step:
  assumes "v \<noteq> Null" and "v \<noteq> Absent"
  shows "resolve v (seg # segs) =
     (case getProperty v seg of Inl e \<Rightarrow> Inl e | Inr v' \<Rightarrow> resolve v' segs)"
  using assms by (cases v) simp_all

lemma resolve_total: "\<exists>r. resolve v segs = Inr r"
proof (induction segs arbitrary: v)
  case Nil
  then show ?case by simp
next
  case (Cons seg segs)
  show ?case
  proof (cases "v = Null \<or> v = Absent")
    case True
    then show ?thesis by auto
  next
    case False
    then obtain v' where "getProperty v seg = Inr v'"
      using getProperty_total [of v seg] by auto
    then show ?thesis using False Cons.IH [of v'] by (simp add: resolve_step)
  qed
qed

lemma resolve_append:
  assumes "resolve v pre = Inr r"
  shows "resolve v (pre @ post) = resolve r post"
  using assms
proof (induction pre arbitrary: v)
  case Nil
  then show ?case by simp
next
  case (Cons seg pre)
  show ?case
  proof (cases "v = Null \<or> v = Absent")
    case True
    then show ?thesis using Cons.prems by auto
  next
    case False
    then obtain v' where g: "getProperty v seg = Inr v'"
      using getProperty_total [of v seg] by auto
    then have "resolve v' pre = Inr r" using Cons.prems False by (simp add: resolve_step)
    from Cons.IH [OF this] show ?thesis using False g by (simp add: resolve_step)
  qed
qed

lemma resolve_Scalar: "post \<noteq> [] \<Longrightarrow> resolve (Scalar l) post = Inr Absent"
  by (cases post) simp_all

text \<open>
  Claim C2. For a container that is neither null nor "no value" and a path whose segments
  are \<open>pre\<close> followed by \<open>post\<close>: when the walk along \<open>pre\<close> ends at null, \<open>get\<close> returns
  null and not the default, whatever \<open>post\<close> is; when it ends at "no value" (a missing
  key), or at a scalar with segments left, \<open>get\<close> returns the default. In every case the
  result is what the walk found, and the default stands in for "no value" only.
\<close>

theorem get_null_and_default:
  assumes "container \<noteq> Null" and "container \<noteq> Absent" and "segments path = pre @ post"
  shows "(resolve container pre = Inr Null \<longrightarrow> get container path d = Inr Null)
       \<and> (resolve container pre = Inr Absent \<longrightarrow> get container path d = Inr d)
       \<and> (resolve container pre = Inr (Scalar l) \<and> post \<noteq> [] \<longrightarrow> get container path d = Inr d)
       \<and> (\<exists>found. resolve container (segments path) = Inr found
             \<and> get container path d = Inr (if found = Absent then d else found))"
proof (intro conjI impI)
  assume "resolve container pre = Inr Null"
  then have "resolve container (segments path) = Inr Null"
    using assms(3) by (simp add: resolve_append)
  then show "get container path d = Inr Null" using assms(1,2) by (simp add: get_def)
next
  assume "resolve container pre = Inr Absent"
  then have "resolve container (segments path) = Inr Absent"
    using assms(3) by (simp add: resolve_append)
  then show "get container path d = Inr d" using assms(1,2) by (simp add: get_def)
next
  assume "resolve container pre = Inr (Scalar l) \<and> post \<noteq> []"
  then have "resolve container (segments path) = Inr Absent"
    using assms(3) by (simp add: resolve_append resolve_Scalar)
  then show "get container path d = Inr d" using assms(1,2) by (simp add: get_def)
next
  obtain found where "resolve container (segments path) = Inr found"
    using resolve_total by blast
  then show "\<exists>found. resolve container (segments path) = Inr found
             \<and> get container path d = Inr (if found = Absent then d else found)"
    using assms(1,2) by (simp add: get_def)
qed

lemma pickKeys_total:
  assumes "v \<noteq> Null" and "v \<noteq> Absent"
  shows "\<exists>kvs. pickKeys v ks = Inr kvs"
proof (induction ks)
  case Nil
  then show ?case by simp
next
  case (Cons k ks)
  obtain v' where "getProperty v k = Inr v'" using getProperty_total [OF assms] by blast
  then show ?case using Cons by auto
qed

text \<open>
  Claim C8. \<open>get\<close> returns a value for every container, path and default, and the
  default when the container is null or "no value"; \<open>pick\<close> returns a value for every
  container and returns null for null; \<open>startsWith\<close> returns a value for every argument
  and false for every value that is not a string.
\<close>

theorem utilities_never_raise:
  "(\<exists>r. get container path d = Inr r)
   \<and> (container = Null \<or> container = Absent \<longrightarrow> get container path d = Inr d)
   \<and> pick Null ks = Inr Null
   \<and> (\<exists>r. pick container ks = Inr r)
   \<and> (\<not> isString v \<longrightarrow> startsWith v prefix = Inr False)
   \<and> (\<exists>b. startsWith v prefix = Inr b)"
proof (intro conjI impI)
  obtain found where "resolve container (segments path) = Inr found"
    using resolve_total by blast
  then show "\<exists>r. get container path d = Inr r" by (simp add: get_def)
next
  assume "container = Null \<or> container = Absent"
  then show "get container path d = Inr d" by (auto simp: get_def)
next
  show "pick Null ks = Inr Null" by (simp add: pick_def)
next
  show "\<exists>r. pick container ks = Inr r"
  proof (cases "container = Null \<or> container = Absent")
    case True
    then show ?thesis by (auto simp: pick_def)
  next
    case False
    then obtain kvs where "pickKeys container ks = Inr kvs"
      using pickKeys_total [of container ks] by auto
    then show ?thesis using False by (simp add: pick_def)
  qed
next
  assume "\<not> isString v"
  then show "startsWith v prefix = Inr False" by (simp add: startsWith_def)
next
  show "\<exists>b. startsWith v prefix = Inr b"
    by (cases v rule: isString.cases) (auto simp: startsWith_def)
qed

theorem get_null_and_default_witness:
  "get (Mapping [(''foo'', Null)]) (PathString ''foo.bar'') (Scalar (LitString ''X'')) = Inr Null
   \<and> get (Mapping [(''foo'', Scalar (LitNumber (Finite 1)))]) (PathString ''foo.bar'')
        (Scalar (LitString ''X'')) = Inr (Scalar (LitString ''X''))
   \<and> get (Mapping [(''nested'', Mapping [(''foo'', Mapping [(''foo'', Scalar (LitString ''bar''))])])])
        (PathString ''nested.bar.foo'') (Scalar (LitString ''X'')) = Inr (Scalar (LitString ''X''))"
proof -
  have s1: "segments (PathString ''foo.bar'') = [''foo''] @ [''bar'']" by simp
  have s2: "segments (PathString ''nested.bar.foo'') = [''nested'', ''bar''] @ [''foo'']" by simp
  have 1: "get (Mapping [(''foo'', Null)]) (PathString ''foo.bar'') (Scalar (LitString ''X''))
      = Inr Null"
    using get_null_and_default [OF _ _ s1, of "Mapping [(''foo'', Null)]"] by simp
  have 2: "get (Mapping [(''foo'', Scalar (LitNumber (Finite 1)))]) (PathString ''foo.bar'')
        (Scalar (LitString ''X'')) = Inr (Scalar (LitString ''X''))"
    using get_null_and_default [OF _ _ s1, of "Mapping [(''foo'', Scalar (LitNumber (Finite 1)))]"
        "Scalar (LitString ''X'')" "LitNumber (Finite 1)"] by simp
  have 3: "get (Mapping [(''nested'', Mapping [(''foo'', Mapping [(''foo'', Scalar (LitString ''bar''))])])])
        (PathString ''nested.bar.foo'') (Scalar (LitString ''X'')) = Inr (Scalar (LitString ''X''))"
    using get_null_and_default [OF _ _ s2,
        of "Mapping [(''nested'', Mapping [(''foo'', Mapping [(''foo'', Scalar (LitString ''bar''))])])]"
        "Scalar (LitString ''X'')"] by simp
  from 1 2 3 show ?thesis by simp
qed

theorem utilities_never_raise_witness:
  "get Null (PathString ''foo.bar'') (Scalar (LitString ''X'')) = Inr (Scalar (LitString ''X''))
   \<and> get (Scalar (LitNumber (Finite 1))) (PathNumber 3) Null = Inr Null
   \<and> pick Null [''foo''] = Inr Null
   \<and> startsWith Null ''x'' = Inr False
   \<and> startsWith (Mapping []) ''x'' = Inr False"
proof -
  note a = utilities_never_raise [of Null "PathString ''foo.bar''" "Scalar (LitString ''X'')"
      "[''foo'']" Null "''x''"]
  note b = utilities_never_raise [of "Scalar (LitNumber (Finite 1))" "PathNumber 3" Null
      "[]" "Mapping []" "''x''"]
  have "get (Scalar (LitNumber (Finite 1))) (PathNumber 3) Null = Inr Null"
    by (simp add: get_def)
  with a b show ?thesis by simp
qed

end
